theory Spec2Isabelle
  imports Main
begin

section \<open>The token manager of chittyauth-app\<close>

text \<open>
  A shallow embedding of the class \<open>TokenManager\<close> (token-manager.js): provisioning,
  validation, refresh and revocation of bearer tokens over a D1 database and four KV
  namespaces.

  Conventions of the embedding.
  \<^item> Numbers are integers, in the range where the arithmetic of the source is exact
    and every instant is a date. Instants are milliseconds since the epoch, as
    \<open>Date.now()\<close> returns them. One operation runs within one clock reading: every
    \<open>Date.now()\<close> inside one call returns the parameter \<open>now\<close> of that call.
  \<^item> A JavaScript string is a \<open>string\<close>; a value that may be \<open>undefined\<close> or
    \<open>null\<close> is an \<open>option\<close>.
  \<^item> \<open>async\<close> functions run to completion one after the other; a rejected promise
    (a \<open>throw\<close>) is the \<open>Inl\<close> of a sum carrying the message of the \<open>Error\<close>.
  \<^item> The stores never fail: a call to D1 or KV returns. D1 is a pair of row lists in
    insertion order and enforces no key constraint; a KV namespace is a map from keys
    to a value and the instant its entry expires.
  \<^item> Values that the source writes as JSON text (\<open>JSON.stringify\<close>) and reads back
    (\<open>JSON.parse\<close>) are kept as the values themselves; an ISO date string
    (\<open>toISOString\<close>) is kept as its instant.
\<close>

subsection \<open>The runtime: digests, encodings, random bytes, numbers as text\<close>

text \<open>
  The digests and the encoding come from the platform (\<open>crypto\<close>, \<open>Buffer\<close>); they
  are parameters of the model. \<open>sha256_hex\<close> is the lower-case hexadecimal SHA-256 of a
  string's UTF-8 bytes, \<open>hmac_sha256_base64url key payload\<close> the base64url text of the
  HMAC, \<open>base64url\<close> the encoding of \<open>Buffer.from(s).toString('base64url')\<close>.
\<close>

record crypto =
  sha256_hex :: "string \<Rightarrow> string"
  hmac_sha256_base64url :: "string \<Rightarrow> string \<Rightarrow> string"
  base64url :: "string \<Rightarrow> string"

type_synonym instant = int

text \<open>
  \<open>crypto.randomBytes\<close>: the bytes the generator delivers during one operation, in
  order, are a function from positions to numbers read modulo 256.
\<close>

type_synonym random_bytes = "nat \<Rightarrow> nat"

definition later :: "nat \<Rightarrow> random_bytes \<Rightarrow> random_bytes" where
  "later n rnd = (\<lambda>i. rnd (n + i))"

definition chars :: string where
  "chars = ''ABCDEFGHIJKLMNOPQRSTUVWXYZabcdefghijklmnopqrstuvwxyz0123456789''"

definition randomString :: "random_bytes \<Rightarrow> nat \<Rightarrow> string" where
  "randomString rnd len = map (\<lambda>i. chars ! ((rnd i mod 256) mod length chars)) [0..<len]"

text \<open>A number in a template literal: its decimal digits.\<close>

function nat_to_string :: "nat \<Rightarrow> string" where
  "nat_to_string n =
     (if n < 10 then [''0123456789'' ! n]
      else nat_to_string (n div 10) @ [''0123456789'' ! (n mod 10)])"
  by pat_completeness auto
termination
  by (relation "measure id") auto

declare nat_to_string.simps [simp del]

definition number_to_string :: "int \<Rightarrow> string" where
  "number_to_string i =
     (if i < 0 then CHR ''-'' # nat_to_string (nat (- i)) else nat_to_string (nat i))"

text \<open>Truthiness of an optional string: \<open>undefined\<close>, \<open>null\<close> and \<open>''\<close> are falsy.\<close>

definition falsy :: "string option \<Rightarrow> bool" where
  "falsy v = (case v of None \<Rightarrow> True | Some s \<Rightarrow> s = [])"

text \<open>\<open>v || null\<close> on an optional string.\<close>

definition or_null :: "string option \<Rightarrow> string option" where
  "or_null v = (if falsy v then None else v)"

subsection \<open>The stores\<close>

text \<open>
  A KV namespace: \<open>put\<close> with \<open>expirationTtl\<close> (seconds) stores the value with the
  instant it expires; \<open>get\<close> answers \<open>null\<close> for an absent or an expired key.
\<close>

type_synonym 'v kv = "string \<rightharpoonup> ('v \<times> instant)"

definition kv_get :: "'v kv \<Rightarrow> instant \<Rightarrow> string \<Rightarrow> 'v option" where
  "kv_get kv now k =
     (case kv k of None \<Rightarrow> None | Some (v, expires) \<Rightarrow> if now < expires then Some v else None)"

definition kv_put :: "'v kv \<Rightarrow> instant \<Rightarrow> string \<Rightarrow> 'v \<Rightarrow> int \<Rightarrow> 'v kv" where
  "kv_put kv now k v expirationTtl = kv(k \<mapsto> (v, now + expirationTtl * 1000))"

definition kv_delete :: "'v kv \<Rightarrow> string \<Rightarrow> 'v kv" where
  "kv_delete kv k = kv(k := None)"

text \<open>The table \<open>tokens\<close> of schema.sql, one record per row.\<close>

record token_row =
  row_id :: string
  token_hash :: string
  chitty_id :: string
  row_scope :: "string list"
  service_name :: "string option"
  created_at :: instant
  expires_at :: instant
  last_used_at :: "instant option"
  request_count :: int
  revoked_at :: "instant option"
  revocation_reason :: "string option"

text \<open>The table \<open>auth_events\<close>, with the columns \<open>logAuditEvent\<close> writes.\<close>

record auth_event_row =
  event_id :: string
  event_type :: string
  event_token_id :: "string option"
  event_chitty_id :: "string option"
  event_service_name :: "string option"
  event_success :: int
  error_message :: "string option"
  event_timestamp :: instant

record d1 =
  tokens :: "token_row list"
  auth_events :: "auth_event_row list"

text \<open>The object cached under \<open>token:<hash>\<close> in \<open>AUTH_TOKENS\<close>.\<close>

record tokenData =
  tokenId :: string
  chittyId :: string
  scope :: "string list"
  service :: "string option"
  createdAt :: instant
  expiresAt :: instant
  requestCount :: int
  lastUsedAt :: "instant option"

text \<open>The object stored under \<open>revoked:<hash>\<close> in \<open>AUTH_REVOCATIONS\<close>.\<close>

record revocation_marker =
  marker_tokenId :: string
  marker_reason :: string
  marker_revokedAt :: instant

text \<open>The argument of \<open>logAuditEvent\<close>; a field a call site leaves out is \<open>None\<close>.\<close>

record audit_event =
  eventType :: string
  audit_tokenId :: "string option"
  audit_chittyId :: "string option"
  audit_service :: "string option"
  success :: bool
  error :: "string option"
  reason :: "string option"
  newTokenId :: "string option"
  timestamp :: instant

text \<open>
  \<open>this.env\<close>: the variables and the bindings of the worker. A binding that the
  deployment does not configure is \<open>None\<close>; the source tests each one before use.
  \<open>DEFAULT_TOKEN_EXPIRY\<close> holds the number \<open>parseInt\<close> reads from the variable.
\<close>

record env =
  TOKEN_SIGNING_KEY :: "string option"
  DEFAULT_TOKEN_EXPIRY :: "int option"
  ENVIRONMENT :: "string option"
  AUTH_DB :: "d1 option"
  AUTH_TOKENS :: "tokenData kv option"
  AUTH_REVOCATIONS :: "revocation_marker kv option"
  AUTH_RATE_LIMITS :: "int kv option"
  AUTH_AUDIT :: "audit_event kv option"

text \<open>The two fields the constructor computes.\<close>

definition signingKey :: "env \<Rightarrow> string" where
  "signingKey env =
     (if falsy (TOKEN_SIGNING_KEY env) then ''dev-signing-key-change-in-production''
      else the (TOKEN_SIGNING_KEY env))"

definition defaultExpiry :: "env \<Rightarrow> int" where
  "defaultExpiry env = (case DEFAULT_TOKEN_EXPIRY env of None \<Rightarrow> 2592000 | Some n \<Rightarrow> n)"

subsection \<open>Results\<close>

record rate_limit =
  requests :: int
  window :: string

record provisioned =
  token :: string
  new_tokenId :: string
  new_scope :: "string list"
  new_expiresAt :: instant
  rateLimit :: rate_limit

record validated =
  valid_tokenId :: string
  valid_chittyId :: string
  valid_scope :: "string list"
  valid_service :: "string option"
  valid_expiresAt :: instant
  rateLimitRemaining :: int

text \<open>
  What \<open>validate\<close> returns: \<open>{ valid: false, error }\<close> or \<open>{ valid: true, ... }\<close>.
\<close>

datatype validation = Invalid string | Valid validated

record revoked =
  revoked_tokenId :: string
  revokedAt :: instant
  revoked_reason :: string

text \<open>What \<open>refresh\<close> returns: \<open>{ success: false, error }\<close> or the new token.\<close>

datatype refreshed = RefreshFailed string | Refreshed provisioned

record stats =
  totalTokens :: int
  activeTokens :: int
  revokedTokens :: int
  expiredTokens :: int
  requestsToday :: int

text \<open>What \<open>getStats\<close> returns: \<open>{ error }\<close> or the five numbers.\<close>

datatype statistics = NoStats string | Stats stats

subsection \<open>Helpers of the class\<close>

definition generateTokenId :: "random_bytes \<Rightarrow> string" where
  "generateTokenId rnd = ''tok_'' @ randomString rnd 20"

definition signPayload :: "crypto \<Rightarrow> env \<Rightarrow> string \<Rightarrow> string" where
  "signPayload C env payload = take 32 (hmac_sha256_base64url C (signingKey env) payload)"

text \<open>
  \<open>generateToken\<close>. The service is interpolated into the payload; \<open>provision\<close> calls
  it with a truthy string only.
\<close>

definition generateToken :: "crypto \<Rightarrow> env \<Rightarrow> instant \<Rightarrow> string \<Rightarrow> string \<Rightarrow> string \<Rightarrow> string" where
  "generateToken C env now tokId chitty svc =
     (let timestamp = now;
          payload = tokId @ '':'' @ chitty @ '':'' @ svc @ '':'' @ number_to_string timestamp;
          signature = signPayload C env payload;
          tokenData = tokId @ ''_'' @ number_to_string timestamp @ ''_'' @ signature;
          encoded = base64url C tokenData;
          environment = (if falsy (ENVIRONMENT env) then ''live'' else the (ENVIRONMENT env));
          pre = (if environment = ''production'' then ''ca_live_''
                 else ''ca_'' @ environment @ ''_'')
      in pre @ encoded)"

definition hashToken :: "crypto \<Rightarrow> string \<Rightarrow> string" where
  "hashToken C tok = sha256_hex C tok"

definition validPrefixes :: "string list" where
  "validPrefixes = [''ca_live_'', ''ca_test_'', ''ca_dev_'', ''svc_'']"

definition startsWith :: "string \<Rightarrow> string \<Rightarrow> bool" where
  "startsWith s p = (take (length p) s = p)"

definition isValidTokenFormat :: "string \<Rightarrow> bool" where
  "isValidTokenFormat tok = list_ex (startsWith tok) validPrefixes"

definition getRateLimit :: "string list \<Rightarrow> rate_limit" where
  "getRateLimit sc =
     (if ''admin:*'' \<in> set sc then \<lparr>requests = 10000, window = ''1h''\<rparr>
      else if ''service:*'' \<in> set sc then \<lparr>requests = 5000, window = ''1h''\<rparr>
      else if length sc > 3 then \<lparr>requests = 1000, window = ''1h''\<rparr>
      else \<lparr>requests = 100, window = ''1h''\<rparr>)"

text \<open>
  The replacement \<open>token.replace(/^Bearer\s+/i, '')\<close>: the six letters in either
  case, then one or more white-space characters, all of them removed (the quantifier is
  greedy and nothing follows it). The white space of \<open>\s\<close> among the characters of a
  \<open>string\<close>: tab, line feed, vertical tab, form feed, carriage return, space and the
  no-break space.
\<close>

definition is_space :: "char \<Rightarrow> bool" where
  "is_space c = (c \<in> set [CHR 0x09, CHR 0x0A, CHR 0x0B, CHR 0x0C, CHR 0x0D, CHR 0x20, CHR 0xA0])"

definition bearer_letters :: "string list" where
  "bearer_letters = [''Bb'', ''Ee'', ''Aa'', ''Rr'', ''Ee'', ''Rr'']"

definition has_bearer :: "string \<Rightarrow> bool" where
  "has_bearer s =
     (list_all2 (\<lambda>c cls. c \<in> set cls) (take 6 s) bearer_letters \<and>
      (case drop 6 s of [] \<Rightarrow> False | c # _ \<Rightarrow> is_space c))"

definition stripBearer :: "string \<Rightarrow> string" where
  "stripBearer s = (if has_bearer s then dropWhile is_space (drop 6 s) else s)"

subsection \<open>The audit log\<close>

definition logAuditEvent :: "env \<Rightarrow> instant \<Rightarrow> random_bytes \<Rightarrow> audit_event \<Rightarrow> env" where
  "logAuditEvent env now rnd event =
     (let eventId = ''evt_'' @ randomString rnd 20;
          env1 = (case AUTH_DB env of
                    None \<Rightarrow> env
                  | Some db \<Rightarrow>
                      env\<lparr>AUTH_DB := Some (db\<lparr>auth_events := auth_events db @
                        [\<lparr>event_id = eventId,
                          event_type = eventType event,
                          event_token_id = or_null (audit_tokenId event),
                          event_chitty_id = or_null (audit_chittyId event),
                          event_service_name = or_null (audit_service event),
                          event_success = (if success event then 1 else 0),
                          error_message = or_null (error event),
                          event_timestamp = timestamp event\<rparr>]\<rparr>)\<rparr>)
      in case AUTH_AUDIT env1 of
           None \<Rightarrow> env1
         | Some kv \<Rightarrow>
             env1\<lparr>AUTH_AUDIT := Some (kv_put kv now (''event:'' @ eventId) event (86400 * 90))\<rparr>)"

subsection \<open>Provisioning\<close>

text \<open>
  \<open>provision({ chittyId, scope, service, expiresIn })\<close>. The guard is
  \<open>!chittyId || !scope || !service\<close>: an array is truthy whatever its length, so only
  an absent scope fails it. The \<open>INSERT\<close> names seven columns; the others of the new
  row, \<open>service_name\<close> among them, are \<open>NULL\<close>. Of the random bytes the first twenty
  make the token id, the next twenty the id of the audit event.
\<close>

definition provision ::
  "crypto \<Rightarrow> env \<Rightarrow> instant \<Rightarrow> random_bytes \<Rightarrow>
   string option \<Rightarrow> string list option \<Rightarrow> string option \<Rightarrow> int option \<Rightarrow>
   (string + provisioned) \<times> env" where
  "provision C env now rnd chittyId_arg scope_arg service_arg expiresIn =
     (if falsy chittyId_arg \<or> scope_arg = None \<or> falsy service_arg
      then (Inl ''Missing required parameters: chittyId, scope, service'', env)
      else
        let chitty = the chittyId_arg; sc = the scope_arg; svc = the service_arg;
            tokId = generateTokenId rnd;
            created = now;
            expires = created +
              (if expiresIn = None \<or> expiresIn = Some 0 then defaultExpiry env
               else the expiresIn) * 1000;
            tok = generateToken C env now tokId chitty svc;
            tokenHash = hashToken C tok;
            env1 = (case AUTH_DB env of
                      None \<Rightarrow> env
                    | Some db \<Rightarrow>
                        env\<lparr>AUTH_DB := Some (db\<lparr>tokens := tokens db @
                          [\<lparr>row_id = tokId,
                            token_hash = tokenHash,
                            chitty_id = chitty,
                            row_scope = sc,
                            service_name = None,
                            created_at = created,
                            expires_at = expires,
                            last_used_at = None,
                            request_count = 0,
                            revoked_at = None,
                            revocation_reason = None\<rparr>]\<rparr>)\<rparr>);
            env2 = (case AUTH_TOKENS env1 of
                      None \<Rightarrow> env1
                    | Some kv \<Rightarrow>
                        env1\<lparr>AUTH_TOKENS := Some (kv_put kv now (''token:'' @ tokenHash)
                          \<lparr>tokenId = tokId,
                            chittyId = chitty,
                            scope = sc,
                            service = Some svc,
                            createdAt = created,
                            expiresAt = expires,
                            requestCount = 0,
                            lastUsedAt = None\<rparr>
                          ((expires - created) div 1000))\<rparr>);
            limit = getRateLimit sc;
            env3 = logAuditEvent env2 now (later 20 rnd)
                     \<lparr>eventType = ''token_provision'',
                       audit_tokenId = Some tokId,
                       audit_chittyId = Some chitty,
                       audit_service = Some svc,
                       success = True,
                       error = None,
                       reason = None,
                       newTokenId = None,
                       timestamp = created\<rparr>
        in (Inr \<lparr>token = tok,
                  new_tokenId = tokId,
                  new_scope = sc,
                  new_expiresAt = expires,
                  rateLimit = limit\<rparr>, env3))"

subsection \<open>Validation\<close>

text \<open>
  \<open>checkRateLimit\<close>. The key of the counter is built from the current second minus
  the window: \<open>windowStart = now - window\<close>. When the count has reached the limit the
  function throws before it writes.
\<close>

definition checkRateLimit :: "env \<Rightarrow> instant \<Rightarrow> string \<Rightarrow> tokenData \<Rightarrow> (string + int) \<times> env" where
  "checkRateLimit env now_ms tokenHash td =
     (case AUTH_RATE_LIMITS env of
        None \<Rightarrow> (Inr 999, env)
      | Some kv \<Rightarrow>
          let window_s = 3600;
              now = now_ms div 1000;
              windowStart = now - window_s;
              limit = getRateLimit (scope td);
              key = ''ratelimit:'' @ tokenHash @ '':'' @ number_to_string windowStart;
              current = kv_get kv now_ms key;
              count = (case current of None \<Rightarrow> 0 | Some n \<Rightarrow> n)
          in if count \<ge> requests limit then (Inl ''Rate limit exceeded'', env)
             else (Inr (requests limit - count - 1),
                   env\<lparr>AUTH_RATE_LIMITS := Some (kv_put kv now_ms key (count + 1) window_s)\<rparr>))"

text \<open>
  \<open>updateTokenUsage\<close>. The \<open>UPDATE\<close> reaches every row with the hash. The cached
  object is changed in place only when \<open>AUTH_TOKENS\<close> is bound, and written back only
  when at least a second of life is left.
\<close>

definition updateTokenUsage :: "env \<Rightarrow> instant \<Rightarrow> string \<Rightarrow> tokenData \<Rightarrow> tokenData \<times> env" where
  "updateTokenUsage env now tokenHash td =
     (let env1 = (case AUTH_DB env of
                    None \<Rightarrow> env
                  | Some db \<Rightarrow>
                      env\<lparr>AUTH_DB := Some (db\<lparr>tokens :=
                        map (\<lambda>r. if token_hash r = tokenHash
                                  then r\<lparr>last_used_at := Some now,
                                         request_count := request_count r + 1\<rparr>
                                  else r) (tokens db)\<rparr>)\<rparr>)
      in case AUTH_TOKENS env1 of
           None \<Rightarrow> (td, env1)
         | Some kv \<Rightarrow>
             let td1 = td\<lparr>lastUsedAt := Some now, requestCount := requestCount td + 1\<rparr>;
                 ttl = (expiresAt td1 - now) div 1000
             in if ttl > 0
                then (td1, env1\<lparr>AUTH_TOKENS := Some (kv_put kv now (''token:'' @ tokenHash) td1 ttl)\<rparr>)
                else (td1, env1))"

text \<open>The revocation list is consulted when \<open>AUTH_REVOCATIONS\<close> is bound.\<close>

definition isRevoked :: "env \<Rightarrow> instant \<Rightarrow> string \<Rightarrow> bool" where
  "isRevoked env now tokenHash =
     (case AUTH_REVOCATIONS env of
        None \<Rightarrow> False
      | Some kv \<Rightarrow> kv_get kv now (''revoked:'' @ tokenHash) \<noteq> None)"

text \<open>
  The token data: the cache first, then the first row of \<open>tokens\<close> with the hash and
  \<open>revoked_at IS NULL\<close>.
\<close>

definition fromRow :: "token_row \<Rightarrow> tokenData" where
  "fromRow result =
     \<lparr>tokenId = row_id result,
      chittyId = chitty_id result,
      scope = row_scope result,
      service = service_name result,
      createdAt = created_at result,
      expiresAt = expires_at result,
      requestCount = request_count result,
      lastUsedAt = None\<rparr>"

definition getTokenData :: "env \<Rightarrow> instant \<Rightarrow> string \<Rightarrow> tokenData option" where
  "getTokenData env now tokenHash =
     (let cached = (case AUTH_TOKENS env of
                      None \<Rightarrow> None
                    | Some kv \<Rightarrow> kv_get kv now (''token:'' @ tokenHash))
      in case cached of
           Some td \<Rightarrow> Some td
         | None \<Rightarrow>
             (case AUTH_DB env of
                None \<Rightarrow> None
              | Some db \<Rightarrow>
                  map_option fromRow
                    (find (\<lambda>r. token_hash r = tokenHash \<and> revoked_at r = None) (tokens db))))"

definition failed :: "string option \<Rightarrow> string \<Rightarrow> instant \<Rightarrow> audit_event" where
  "failed tokId msg now =
     \<lparr>eventType = ''token_validation_failed'',
      audit_tokenId = tokId,
      audit_chittyId = None,
      audit_service = None,
      success = False,
      error = Some msg,
      reason = None,
      newTokenId = None,
      timestamp = now\<rparr>"

text \<open>
  \<open>validate(token)\<close>. The argument is \<open>None\<close> for a value that is not a string. The
  exception of \<open>checkRateLimit\<close> is not caught: it leaves \<open>validate\<close> after the usage
  update and before the audit event.
\<close>

definition validate ::
  "crypto \<Rightarrow> env \<Rightarrow> instant \<Rightarrow> random_bytes \<Rightarrow> string option \<Rightarrow> (string + validation) \<times> env" where
  "validate C env now rnd token_arg =
     (if falsy token_arg then (Inr (Invalid ''Invalid token format''), env)
      else
        let tok = stripBearer (the token_arg) in
        if \<not> isValidTokenFormat tok then (Inr (Invalid ''Invalid token format''), env)
        else
          let tokenHash = hashToken C tok in
          if isRevoked env now tokenHash
          then (Inr (Invalid ''Token has been revoked''),
                logAuditEvent env now rnd (failed None ''Token revoked'' now))
          else
            case getTokenData env now tokenHash of
              None \<Rightarrow>
                (Inr (Invalid ''Token not found''),
                 logAuditEvent env now rnd (failed None ''Token not found'' now))
            | Some td \<Rightarrow>
                if expiresAt td < now
                then (Inr (Invalid ''Token has expired''),
                      logAuditEvent env now rnd (failed (Some (tokenId td)) ''Token expired'' now))
                else
                  case updateTokenUsage env now tokenHash td of
                    (td1, env1) \<Rightarrow>
                      (case checkRateLimit env1 now tokenHash td1 of
                         (Inl thrown, env2) \<Rightarrow> (Inl thrown, env2)
                       | (Inr remaining, env2) \<Rightarrow>
                           (Inr (Valid \<lparr>valid_tokenId = tokenId td1,
                                        valid_chittyId = chittyId td1,
                                        valid_scope = scope td1,
                                        valid_service = service td1,
                                        valid_expiresAt = expiresAt td1,
                                        rateLimitRemaining = remaining\<rparr>),
                            logAuditEvent env2 now rnd
                              \<lparr>eventType = ''token_validated'',
                               audit_tokenId = Some (tokenId td1),
                               audit_chittyId = Some (chittyId td1),
                               audit_service = None,
                               success = True,
                               error = None,
                               reason = None,
                               newTokenId = None,
                               timestamp = now\<rparr>)))"

subsection \<open>Revocation and refresh\<close>

text \<open>
  \<open>revoke(tokenId, reason = 'Manual revocation')\<close>. The \<open>UPDATE\<close> sets
  \<open>revoked_at\<close> on every row with the id, whatever it held; the marker and the cache
  are touched only when the database is bound and has a row with the id.
\<close>

definition revoke ::
  "env \<Rightarrow> instant \<Rightarrow> random_bytes \<Rightarrow> string \<Rightarrow> string option \<Rightarrow> revoked \<times> env" where
  "revoke env now rnd tokId reason_arg =
     (let why = (case reason_arg of None \<Rightarrow> ''Manual revocation'' | Some r \<Rightarrow> r);
          env1 =
            (case AUTH_DB env of
               None \<Rightarrow> env
             | Some db \<Rightarrow>
                 let db1 = db\<lparr>tokens :=
                       map (\<lambda>r. if row_id r = tokId then r\<lparr>revoked_at := Some now\<rparr> else r)
                         (tokens db)\<rparr>;
                     envA = env\<lparr>AUTH_DB := Some db1\<rparr>
                 in case find (\<lambda>r. row_id r = tokId) (tokens db1) of
                      None \<Rightarrow> envA
                    | Some result \<Rightarrow>
                        let envB =
                              (case AUTH_REVOCATIONS envA of
                                 None \<Rightarrow> envA
                               | Some kv \<Rightarrow>
                                   envA\<lparr>AUTH_REVOCATIONS := Some
                                     (kv_put kv now (''revoked:'' @ token_hash result)
                                        \<lparr>marker_tokenId = tokId,
                                         marker_reason = why,
                                         marker_revokedAt = now\<rparr>
                                        (86400 * 90))\<rparr>)
                        in case AUTH_TOKENS envB of
                             None \<Rightarrow> envB
                           | Some kv \<Rightarrow>
                               envB\<lparr>AUTH_TOKENS := Some
                                 (kv_delete kv (''token:'' @ token_hash result))\<rparr>);
          env2 = logAuditEvent env1 now rnd
                   \<lparr>eventType = ''token_revoked'',
                    audit_tokenId = Some tokId,
                    audit_chittyId = None,
                    audit_service = None,
                    success = True,
                    error = None,
                    reason = Some why,
                    newTokenId = None,
                    timestamp = now\<rparr>
      in (\<lparr>revoked_tokenId = tokId, revokedAt = now, revoked_reason = why\<rparr>, env2))"

text \<open>
  \<open>refresh(token, expiresIn)\<close>: validate, revoke the old token, provision a new one
  with what the validation returned, log. A successful validation has drawn twenty random
  bytes, the revocation the next twenty, the provisioning the forty after them.
\<close>

definition refresh ::
  "crypto \<Rightarrow> env \<Rightarrow> instant \<Rightarrow> random_bytes \<Rightarrow> string option \<Rightarrow> int option \<Rightarrow>
   (string + refreshed) \<times> env" where
  "refresh C env now rnd token_arg expiresIn =
     (case validate C env now rnd token_arg of
        (Inl thrown, env1) \<Rightarrow> (Inl thrown, env1)
      | (Inr (Invalid msg), env1) \<Rightarrow> (Inr (RefreshFailed msg), env1)
      | (Inr (Valid v), env1) \<Rightarrow>
          (case revoke env1 now (later 20 rnd) (valid_tokenId v) (Some ''Token refreshed'') of
             (_, env2) \<Rightarrow>
               (case provision C env2 now (later 40 rnd)
                       (Some (valid_chittyId v)) (Some (valid_scope v)) (valid_service v) expiresIn of
                  (Inl thrown, env3) \<Rightarrow> (Inl thrown, env3)
                | (Inr newToken, env3) \<Rightarrow>
                    (Inr (Refreshed newToken),
                     logAuditEvent env3 now (later 80 rnd)
                       \<lparr>eventType = ''token_refreshed'',
                        audit_tokenId = Some (valid_tokenId v),
                        audit_chittyId = Some (valid_chittyId v),
                        audit_service = None,
                        success = True,
                        error = None,
                        reason = None,
                        newTokenId = Some (new_tokenId newToken),
                        timestamp = now\<rparr>))))"

subsection \<open>Statistics\<close>

text \<open>
  \<open>getStats\<close>, when the database is bound: the counts of the first query and the sum
  of the second. \<open>SUM\<close> over no row is \<open>NULL\<close>, which \<open>|| 0\<close> turns into 0.
\<close>

definition getStats :: "env \<Rightarrow> instant \<Rightarrow> statistics" where
  "getStats env now =
     (case AUTH_DB env of
        None \<Rightarrow> NoStats ''Database not available''
      | Some db \<Rightarrow>
          Stats
            \<lparr>totalTokens = int (length (tokens db)),
             activeTokens =
               int (length (filter (\<lambda>r. revoked_at r = None \<and> expires_at r > now) (tokens db))),
             revokedTokens = int (length (filter (\<lambda>r. revoked_at r \<noteq> None) (tokens db))),
             expiredTokens = int (length (filter (\<lambda>r. expires_at r \<le> now) (tokens db))),
             requestsToday =
               sum_list (map request_count
                 (filter (\<lambda>r. case last_used_at r of
                                 None \<Rightarrow> False
                               | Some used \<Rightarrow> used \<ge> now - 86400000) (tokens db)))\<rparr>)"

subsection \<open>Sequences of calls\<close>

text \<open>
  The service answers one call after the other. A call comes with the instant at which
  it runs and the random bytes it draws; \<open>serve\<close> gives the stores after it.
\<close>

datatype call =
    Provision "string option" "string list option" "string option" "int option"
  | Validate "string option"
  | Refresh "string option" "int option"
  | Revoke string "string option"

fun serve :: "crypto \<Rightarrow> env \<Rightarrow> instant \<times> random_bytes \<times> call \<Rightarrow> env" where
  "serve C env (now, rnd, Provision chitty sc svc expiresIn) =
     snd (provision C env now rnd chitty sc svc expiresIn)"
| "serve C env (now, rnd, Validate tok) = snd (validate C env now rnd tok)"
| "serve C env (now, rnd, Refresh tok expiresIn) = snd (refresh C env now rnd tok expiresIn)"
| "serve C env (now, rnd, Revoke tokId why) = snd (revoke env now rnd tokId why)"

definition serve_all :: "crypto \<Rightarrow> env \<Rightarrow> (instant \<times> random_bytes \<times> call) list \<Rightarrow> env" where
  "serve_all C env calls = foldl (serve C) env calls"

text \<open>The stores after \<open>n\<close> validations of one token at one instant.\<close>

primrec validations ::
  "crypto \<Rightarrow> env \<Rightarrow> instant \<Rightarrow> random_bytes \<Rightarrow> string option \<Rightarrow> nat \<Rightarrow> env" where
  "validations C env now rnd t 0 = env"
| "validations C env now rnd t (Suc n) =
     snd (validate C (validations C env now rnd t n) now rnd t)"

text \<open>
  The revocation list holds a marker for the hash that lives at least until the deadline.
\<close>

definition marked_until :: "env \<Rightarrow> string \<Rightarrow> instant \<Rightarrow> bool" where
  "marked_until env tokenHash deadline =
     (case AUTH_REVOCATIONS env of
        None \<Rightarrow> False
      | Some kv \<Rightarrow>
          (case kv (''revoked:'' @ tokenHash) of
             None \<Rightarrow> False
           | Some (m, expires) \<Rightarrow> deadline \<le> expires))"

subsection \<open>Instances\<close>

text \<open>
  The properties below hold for every choice of the digests. Where an example needs a
  concrete runtime, the digests are transparent (a string is its own digest) and every
  random byte is 0, so that generated ids read \<open>AAAA...\<close>.
\<close>

definition transparent :: crypto where
  "transparent =
     \<lparr>sha256_hex = (\<lambda>s. s),
      hmac_sha256_base64url = (\<lambda>key payload. key @ payload),
      base64url = (\<lambda>s. s)\<rparr>"

definition zeros :: random_bytes where
  "zeros = (\<lambda>i. 0)"

text \<open>The environment of the unit tests: every binding configured, every store empty.\<close>

definition mockEnv :: env where
  "mockEnv =
     \<lparr>TOKEN_SIGNING_KEY = Some ''test-signing-key-for-unit-tests-only'',
      DEFAULT_TOKEN_EXPIRY = Some 3600,
      ENVIRONMENT = None,
      AUTH_DB = Some \<lparr>tokens = [], auth_events = []\<rparr>,
      AUTH_TOKENS = Some Map.empty,
      AUTH_REVOCATIONS = Some Map.empty,
      AUTH_RATE_LIMITS = Some Map.empty,
      AUTH_AUDIT = Some Map.empty\<rparr>"

text \<open>
  A database with one token, issued at instant 0 for an hour: the token
  \<open>ca_live_abc123\<close>, stored under its transparent digest.
\<close>

definition stored :: token_row where
  "stored =
     \<lparr>row_id = ''tok_1'',
      token_hash = ''ca_live_abc123'',
      chitty_id = ''subject-42'',
      row_scope = [''res:read''],
      service_name = None,
      created_at = 0,
      expires_at = 3600000,
      last_used_at = None,
      request_count = 0,
      revoked_at = None,
      revocation_reason = None\<rparr>"

definition one_token :: env where
  "one_token = mockEnv\<lparr>AUTH_DB := Some \<lparr>tokens = [stored], auth_events = []\<rparr>\<rparr>"

text \<open>
  The scenario of the specification: a token for \<open>subject-42\<close> with the scope
  \<open>res:read\<close> and the service \<open>svc\<close>, for one hour.
\<close>

definition provision_subject_42 ::
  "crypto \<Rightarrow> env \<Rightarrow> instant \<Rightarrow> random_bytes \<Rightarrow> (string + provisioned) \<times> env" where
  "provision_subject_42 C env t rnd =
     provision C env t rnd (Some ''subject-42'') (Some [''res:read'']) (Some ''svc'') (Some 3600)"

text \<open>The database with the one token, which the cache holds too.\<close>

definition cached :: env where
  "cached =
     one_token\<lparr>AUTH_TOKENS := Some [''token:ca_live_abc123'' \<mapsto> (fromRow stored, 3600000)]\<rparr>"

text \<open>
  The stores that \<open>k\<close> validations of the cached token leave, all of them at instant
  10000, that is in second 10, whose counter has the key ending in \<open>10 - 3600\<close>.
\<close>

definition stores_after :: "nat \<Rightarrow> env" where
  "stores_after k =
     mockEnv
       \<lparr>AUTH_DB := Some
          \<lparr>tokens = [stored\<lparr>last_used_at := Some 10000, request_count := int k\<rparr>],
           auth_events = replicate k
             \<lparr>event_id = ''evt_AAAAAAAAAAAAAAAAAAAA'',
              event_type = ''token_validated'',
              event_token_id = Some ''tok_1'',
              event_chitty_id = Some ''subject-42'',
              event_service_name = None,
              event_success = 1,
              error_message = None,
              event_timestamp = 10000\<rparr>\<rparr>,
        AUTH_TOKENS := Some
          [''token:ca_live_abc123'' \<mapsto>
             ((fromRow stored)\<lparr>lastUsedAt := Some 10000, requestCount := int k\<rparr>, 3600000)],
        AUTH_RATE_LIMITS := Some [''ratelimit:ca_live_abc123:-3590'' \<mapsto> (int k, 3610000)],
        AUTH_AUDIT := Some
          [''event:evt_AAAAAAAAAAAAAAAAAAAA'' \<mapsto>
             (\<lparr>eventType = ''token_validated'',
               audit_tokenId = Some ''tok_1'',
               audit_chittyId = Some ''subject-42'',
               audit_service = None,
               success = True,
               error = None,
               reason = None,
               newTokenId = None,
               timestamp = 10000\<rparr>, 7776010000)]\<rparr>"

section \<open>Properties\<close>

subsection \<open>What the audit log leaves alone\<close>

lemma logAuditEvent_tokens:
  "map_option tokens (AUTH_DB (logAuditEvent env now rnd e)) = map_option tokens (AUTH_DB env)"
  by (simp add: logAuditEvent_def Let_def split: option.splits)

lemma logAuditEvent_AUTH_TOKENS:
  "AUTH_TOKENS (logAuditEvent env now rnd e) = AUTH_TOKENS env"
  by (simp add: logAuditEvent_def Let_def split: option.splits)

lemma logAuditEvent_AUTH_REVOCATIONS:
  "AUTH_REVOCATIONS (logAuditEvent env now rnd e) = AUTH_REVOCATIONS env"
  by (simp add: logAuditEvent_def Let_def split: option.splits)

lemma logAuditEvent_AUTH_RATE_LIMITS:
  "AUTH_RATE_LIMITS (logAuditEvent env now rnd e) = AUTH_RATE_LIMITS env"
  by (simp add: logAuditEvent_def Let_def split: option.splits)

subsection \<open>A failed validation changes no token record\<close>

text \<open>
  Claim C9. Whenever \<open>validate\<close> returns \<open>{ valid: false, ... }\<close>, whatever the reason
  (a missing or ill-formed token, a revoked one, an unknown one, an expired one), the
  table \<open>tokens\<close> and the cache \<open>AUTH_TOKENS\<close> are what they were before the call: no
  \<open>request_count\<close> is incremented and no \<open>last_used_at\<close> is set.
\<close>

theorem failed_validation_keeps_token_records:
  assumes "fst (validate C env now rnd t) = Inr (Invalid msg)"
  shows "map_option tokens (AUTH_DB (snd (validate C env now rnd t))) = map_option tokens (AUTH_DB env)
       \<and> AUTH_TOKENS (snd (validate C env now rnd t)) = AUTH_TOKENS env"
  using assms
  by (auto simp: validate_def Let_def logAuditEvent_tokens logAuditEvent_AUTH_TOKENS
      split: if_splits option.splits prod.splits sum.splits)

text \<open>
  The stored token has expired at instant 3600001: the validation fails, and the row is
  still the one stored.
\<close>

lemma expired_example:
  "fst (validate transparent one_token 3600001 zeros (Some ''ca_live_abc123''))
     = Inr (Invalid ''Token has expired'')"
  by (simp add: validate_def falsy_def stripBearer_def has_bearer_def bearer_letters_def
      isValidTokenFormat_def validPrefixes_def startsWith_def hashToken_def transparent_def
      isRevoked_def one_token_def mockEnv_def kv_get_def getTokenData_def stored_def fromRow_def)

theorem failed_validation_keeps_token_records_witness:
  "fst (validate transparent one_token 3600001 zeros (Some ''ca_live_abc123''))
     = Inr (Invalid ''Token has expired'')
   \<and> map_option tokens
        (AUTH_DB (snd (validate transparent one_token 3600001 zeros (Some ''ca_live_abc123''))))
     = Some [stored]
   \<and> AUTH_TOKENS (snd (validate transparent one_token 3600001 zeros (Some ''ca_live_abc123'')))
     = Some Map.empty"
  using failed_validation_keeps_token_records [OF expired_example] expired_example
  by (simp add: one_token_def mockEnv_def)

subsection \<open>The revocation list outlives every later call\<close>

lemma provision_AUTH_REVOCATIONS:
  "AUTH_REVOCATIONS (snd (provision C env now rnd a b c d)) = AUTH_REVOCATIONS env"
  by (simp add: provision_def Let_def logAuditEvent_AUTH_REVOCATIONS split: option.splits)

lemma updateTokenUsage_AUTH_REVOCATIONS:
  "AUTH_REVOCATIONS (snd (updateTokenUsage env now h td)) = AUTH_REVOCATIONS env"
  by (simp add: updateTokenUsage_def Let_def split: option.splits)

lemma checkRateLimit_AUTH_REVOCATIONS:
  "AUTH_REVOCATIONS (snd (checkRateLimit env now h td)) = AUTH_REVOCATIONS env"
  by (simp add: checkRateLimit_def Let_def split: option.splits)

lemma validate_AUTH_REVOCATIONS:
  "AUTH_REVOCATIONS (snd (validate C env now rnd t)) = AUTH_REVOCATIONS env"
  by (simp add: validate_def Let_def split_def logAuditEvent_AUTH_REVOCATIONS
      checkRateLimit_AUTH_REVOCATIONS updateTokenUsage_AUTH_REVOCATIONS
      split: option.splits sum.splits)

lemma marked_logAuditEvent:
  "marked_until (logAuditEvent env now rnd e) h d = marked_until env h d"
  by (simp add: marked_until_def logAuditEvent_AUTH_REVOCATIONS)

lemma marked_provision:
  "marked_until (snd (provision C env now rnd a b c d)) h dl = marked_until env h dl"
  by (simp add: marked_until_def provision_AUTH_REVOCATIONS)

lemma marked_validate:
  "marked_until (snd (validate C env now rnd t)) h dl = marked_until env h dl"
  by (simp add: marked_until_def validate_AUTH_REVOCATIONS)

text \<open>
  A revocation writes the list only to put a marker that lives ninety days from its own
  instant; a marker already there is replaced by one that lives longer, or left alone.
\<close>

lemma marked_revoke:
  assumes "marked_until env h d" and "d \<le> now + 86400 * 90 * 1000"
  shows "marked_until (snd (revoke env now rnd tokId why)) h d"
  using assms
  by (auto simp: revoke_def Let_def marked_until_def logAuditEvent_AUTH_REVOCATIONS kv_put_def
      split: option.splits)

lemma marked_refresh:
  assumes "marked_until env h d" and "d \<le> now + 86400 * 90 * 1000"
  shows "marked_until (snd (refresh C env now rnd t ex)) h d"
proof (cases "validate C env now rnd t")
  case (Pair res env1)
  then have m1: "marked_until env1 h d"
    using assms(1) marked_validate [of C env now rnd t h d] by simp
  show ?thesis
  proof (cases res)
    case (Inl thrown)
    with Pair m1 show ?thesis by (simp add: refresh_def)
  next
    case (Inr verdict)
    show ?thesis
    proof (cases verdict)
      case (Invalid msg)
      with Pair Inr m1 show ?thesis by (simp add: refresh_def)
    next
      case (Valid v)
      have "marked_until
              (snd (revoke env1 now (later 20 rnd) (valid_tokenId v) (Some ''Token refreshed''))) h d"
        using m1 assms(2) by (rule marked_revoke)
      then have "marked_until
              (snd (provision C
                     (snd (revoke env1 now (later 20 rnd) (valid_tokenId v) (Some ''Token refreshed'')))
                     now (later 40 rnd) (Some (valid_chittyId v)) (Some (valid_scope v))
                     (valid_service v) ex)) h d"
        by (simp add: marked_provision)
      with Pair Inr Valid show ?thesis
        by (simp add: refresh_def split_def marked_logAuditEvent split: sum.splits)
    qed
  qed
qed

lemma marked_serve:
  assumes "marked_until env h d" and "d \<le> fst c + 86400 * 90 * 1000"
  shows "marked_until (serve C env c) h d"
proof -
  obtain now rnd cl where c: "c = (now, rnd, cl)" by (cases c) auto
  show ?thesis
    using assms unfolding c
    by (cases cl) (simp_all add: marked_provision marked_validate marked_revoke marked_refresh)
qed

lemma marked_serve_all:
  assumes "marked_until env h d" and "list_all (\<lambda>c. d \<le> fst c + 86400 * 90 * 1000) calls"
  shows "marked_until (serve_all C env calls) h d"
  using assms unfolding serve_all_def
  by (induction calls arbitrary: env) (simp_all add: marked_serve)

text \<open>The \<open>SELECT\<close> after the \<open>UPDATE\<close> of \<open>revoke\<close> finds the row the update wrote.\<close>

lemma find_after_update:
  assumes "find (\<lambda>r. row_id r = i) rows = Some r"
  shows "find (\<lambda>r. row_id r = i)
           (map (\<lambda>r. if row_id r = i then r\<lparr>revoked_at := v\<rparr> else r) rows)
         = Some (r\<lparr>revoked_at := v\<rparr>)"
  using assms by (induction rows) (auto split: if_splits)

lemma revoke_marks:
  assumes "AUTH_DB env = Some db" and "AUTH_REVOCATIONS env \<noteq> None"
    and "find (\<lambda>r. row_id r = tokId) (tokens db) = Some r" and "token_hash r = h"
  shows "marked_until (snd (revoke env now rnd tokId why)) h (now + 86400 * 90 * 1000)"
  using assms
  by (auto simp: revoke_def Let_def marked_until_def logAuditEvent_AUTH_REVOCATIONS kv_put_def
      find_after_update split: option.splits)

text \<open>A token with one of the four prefixes carries no \<open>Bearer\<close> prefix.\<close>

lemma wellformed_has_no_bearer:
  assumes "isValidTokenFormat tok"
  shows "stripBearer tok = tok"
  using assms
  by (cases tok) (auto simp: isValidTokenFormat_def validPrefixes_def startsWith_def
      stripBearer_def has_bearer_def bearer_letters_def list_all2_Cons2 take_Cons'
      split: if_splits)

text \<open>The marker is read before the cache: what the cache holds does not matter.\<close>

lemma marked_validate_revoked:
  assumes "marked_until env (hashToken C tok) d" and "now < d" and "isValidTokenFormat tok"
  shows "fst (validate C (env\<lparr>AUTH_TOKENS := cache\<rparr>) now rnd (Some tok))
       = Inr (Invalid ''Token has been revoked'')"
proof -
  have "tok \<noteq> []" using assms(3)
    by (auto simp: isValidTokenFormat_def validPrefixes_def startsWith_def)
  moreover have "isRevoked (env\<lparr>AUTH_TOKENS := cache\<rparr>) now (hashToken C tok)"
    using assms(1,2) by (auto simp: marked_until_def isRevoked_def kv_get_def split: option.splits)
  ultimately show ?thesis
    using assms(3) by (simp add: validate_def falsy_def wellformed_has_no_bearer)
qed

text \<open>
  Claim C1. Let the database and the revocation list be bound, and let the first row
  with id \<open>tokId\<close> carry the hash of the well-formed token \<open>tok\<close>. After
  \<open>revoke(tokId)\<close> at instant \<open>t0\<close>, and after any calls that follow it (none of them
  before \<open>t0\<close>), a validation of \<open>tok\<close> at any instant before \<open>t0\<close> plus ninety days
  returns \<open>Token has been revoked\<close>, whatever the cache \<open>AUTH_TOKENS\<close> holds at that
  moment: also when the entry of the token was never deleted or has been put back.
\<close>

theorem revoked_token_is_rejected_through_the_grace_window:
  assumes "AUTH_DB env = Some db" and "AUTH_REVOCATIONS env \<noteq> None"
    and "find (\<lambda>r. row_id r = tokId) (tokens db) = Some r"
    and "token_hash r = hashToken C tok"
    and "isValidTokenFormat tok"
    and "list_all (\<lambda>c. t0 \<le> fst c) calls"
    and "now < t0 + 86400 * 90 * 1000"
  shows "fst (validate C
               ((serve_all C (snd (revoke env t0 rnd0 tokId why)) calls)\<lparr>AUTH_TOKENS := cache\<rparr>)
               now rnd (Some tok))
       = Inr (Invalid ''Token has been revoked'')"
proof -
  have "marked_until (snd (revoke env t0 rnd0 tokId why)) (hashToken C tok)
          (t0 + 86400 * 90 * 1000)"
    using assms(1-4) by (rule revoke_marks)
  moreover have "list_all (\<lambda>c. t0 + 86400 * 90 * 1000 \<le> fst c + 86400 * 90 * 1000) calls"
    using assms(6) by (simp add: list_all_iff)
  ultimately have "marked_until (serve_all C (snd (revoke env t0 rnd0 tokId why)) calls)
      (hashToken C tok) (t0 + 86400 * 90 * 1000)"
    by (rule marked_serve_all)
  then show ?thesis
    using assms(7,5) by (rule marked_validate_revoked)
qed

text \<open>
  The stored token is revoked at instant 1000; a validation and a provisioning follow;
  the cache is then made to hold the token again, live until the token expires. At
  instant 5000 the token is rejected as revoked.
\<close>

theorem revoked_token_is_rejected_through_the_grace_window_witness:
  "AUTH_DB one_token = Some \<lparr>tokens = [stored], auth_events = []\<rparr>
   \<and> AUTH_REVOCATIONS one_token \<noteq> None
   \<and> find (\<lambda>r. row_id r = ''tok_1'') (tokens \<lparr>tokens = [stored], auth_events = []\<rparr>) = Some stored
   \<and> token_hash stored = hashToken transparent ''ca_live_abc123''
   \<and> isValidTokenFormat ''ca_live_abc123''
   \<and> list_all (\<lambda>c. (1000 :: instant) \<le> fst c)
        [(2000, zeros, Validate (Some ''ca_live_abc123'')),
         (3000, zeros, Provision (Some ''subject-7'') (Some [''res:read'']) (Some ''svc'') None)]
   \<and> (5000 :: int) < 1000 + 86400 * 90 * 1000
   \<and> fst (validate transparent
            ((serve_all transparent (snd (revoke one_token 1000 zeros ''tok_1'' None))
                [(2000, zeros, Validate (Some ''ca_live_abc123'')),
                 (3000, zeros, Provision (Some ''subject-7'') (Some [''res:read'']) (Some ''svc'') None)])
             \<lparr>AUTH_TOKENS := Some [''token:ca_live_abc123'' \<mapsto> (fromRow stored, 3600000)]\<rparr>)
            5000 zeros (Some ''ca_live_abc123''))
     = Inr (Invalid ''Token has been revoked'')"
proof -
  have h1: "AUTH_DB one_token = Some \<lparr>tokens = [stored], auth_events = []\<rparr>"
    by (simp add: one_token_def)
  have h2: "AUTH_REVOCATIONS one_token \<noteq> None"
    by (simp add: one_token_def mockEnv_def)
  have h3: "find (\<lambda>r. row_id r = ''tok_1'') (tokens \<lparr>tokens = [stored], auth_events = []\<rparr>)
      = Some stored"
    by (simp add: stored_def)
  have h4: "token_hash stored = hashToken transparent ''ca_live_abc123''"
    by (simp add: stored_def hashToken_def transparent_def)
  have h5: "isValidTokenFormat ''ca_live_abc123''"
    by (simp add: isValidTokenFormat_def validPrefixes_def startsWith_def)
  have h6: "list_all (\<lambda>c. (1000 :: instant) \<le> fst c)
        [(2000, zeros, Validate (Some ''ca_live_abc123'')),
         (3000, zeros, Provision (Some ''subject-7'') (Some [''res:read'']) (Some ''svc'') None)]"
    by simp
  have h7: "(5000 :: int) < 1000 + 86400 * 90 * 1000"
    by simp
  show ?thesis
    by (intro conjI h1 h2 h3 h4 h5 h6 h7
        revoked_token_is_rejected_through_the_grace_window [OF h1 h2 h3 h4 h5 h6 h7])
qed

subsection \<open>The Bearer prefix\<close>

text \<open>
  Claim C10, as the code has it. \<open>validate\<close> removes one leading \<open>Bearer\<close>, in
  any case, together with all the white space after it. So \<open>validate('Bearer ' + t)\<close>
  is \<open>validate(t)\<close>, result and stores, for every \<open>t\<close> that does not begin with white
  space and does not itself begin with such a prefix.
\<close>

theorem bearer_prefix_is_stripped_once:
  assumes "\<not> has_bearer t" and "dropWhile is_space t = t"
  shows "validate C env now rnd (Some (''Bearer '' @ t)) = validate C env now rnd (Some t)"
proof -
  define raw where "raw = ''Bearer '' @ t"
  have "dropWhile is_space (CHR '' '' # t) = t"
    using assms(2) by (simp add: is_space_def)
  then have s: "stripBearer raw = t"
    by (simp add: raw_def stripBearer_def has_bearer_def bearer_letters_def is_space_def)
  have n: "raw \<noteq> []"
    by (simp add: raw_def)
  have s': "stripBearer t = t"
    using assms(1) by (simp add: stripBearer_def)
  have e: "\<not> isValidTokenFormat []"
    by (simp add: isValidTokenFormat_def validPrefixes_def startsWith_def)
  have "validate C env now rnd (Some raw) = validate C env now rnd (Some t)"
    by (cases "t = []") (simp_all add: validate_def falsy_def s s' e n)
  then show ?thesis
    by (simp only: raw_def)
qed

theorem bearer_prefix_is_stripped_once_witness:
  "\<not> has_bearer ''ca_live_abc123'' \<and> dropWhile is_space ''ca_live_abc123'' = ''ca_live_abc123''
   \<and> validate transparent mockEnv 0 zeros (Some (''Bearer '' @ ''ca_live_abc123''))
     = validate transparent mockEnv 0 zeros (Some ''ca_live_abc123'')"
proof -
  have h1: "\<not> has_bearer ''ca_live_abc123''"
    by (simp add: has_bearer_def bearer_letters_def)
  have h2: "dropWhile is_space ''ca_live_abc123'' = ''ca_live_abc123''"
    by (simp add: is_space_def)
  show ?thesis
    by (intro conjI h1 h2 bearer_prefix_is_stripped_once [OF h1 h2])
qed

text \<open>
  For a \<open>t\<close> that begins with a space the two calls differ: the space after
  \<open>Bearer\<close> is removed with the prefix, the space of the bare string is not, and the
  bare string fails the format check.
\<close>

theorem bearer_then_space_counterexample:
  "fst (validate transparent mockEnv 0 zeros (Some (''Bearer '' @ '' ca_live_abc123'')))
     = Inr (Invalid ''Token not found'')
   \<and> fst (validate transparent mockEnv 0 zeros (Some '' ca_live_abc123''))
     = Inr (Invalid ''Invalid token format'')"
  by (simp add: validate_def falsy_def stripBearer_def has_bearer_def bearer_letters_def
      is_space_def isValidTokenFormat_def validPrefixes_def startsWith_def hashToken_def
      transparent_def isRevoked_def mockEnv_def kv_get_def getTokenData_def)

subsection \<open>The guard of provision\<close>

text \<open>
  Claim C7, as the code has it. \<open>provision\<close> throws \<open>Missing required parameters\<close>,
  and leaves every store as it was, when \<open>chittyId\<close> or \<open>service\<close> is absent or
  empty or \<open>scope\<close> is absent. In every other case it returns a token with the scope it
  was given: an empty scope list counts as present.
\<close>

theorem provision_guard:
  "(falsy chitty \<or> sc = None \<or> falsy svc \<longrightarrow>
      provision C env now rnd chitty sc svc ex
        = (Inl ''Missing required parameters: chittyId, scope, service'', env))
   \<and> (\<not> (falsy chitty \<or> sc = None \<or> falsy svc) \<longrightarrow>
      (\<exists>p. fst (provision C env now rnd chitty sc svc ex) = Inr p \<and> new_scope p = the sc))"
  by (simp add: provision_def Let_def)

theorem provision_guard_witness:
  "provision transparent mockEnv 0 zeros (Some ''subject-42'') None (Some ''svc'') None
      = (Inl ''Missing required parameters: chittyId, scope, service'', mockEnv)
   \<and> (\<exists>p. fst (provision transparent mockEnv 0 zeros
                  (Some ''subject-42'') (Some []) (Some ''svc'') None) = Inr p
          \<and> new_scope p = [])"
  using provision_guard [of "Some ''subject-42''" None "Some ''svc''" transparent mockEnv 0 zeros None]
    provision_guard [of "Some ''subject-42''" "Some []" "Some ''svc''" transparent mockEnv 0 zeros None]
  by (simp add: falsy_def)

text \<open>
  With an empty scope list \<open>provision\<close> does not throw, and the table \<open>tokens\<close> has a
  new row whose scope is empty.
\<close>

theorem empty_scope_is_provisioned:
  "fst (provision transparent mockEnv 0 zeros (Some ''subject-42'') (Some []) (Some ''svc'') None)
     \<noteq> Inl ''Missing required parameters: chittyId, scope, service''
   \<and> map_option (map row_scope \<circ> tokens)
        (AUTH_DB (snd (provision transparent mockEnv 0 zeros
                         (Some ''subject-42'') (Some []) (Some ''svc'') None)))
     = Some [[]]"
  by (simp add: provision_def Let_def falsy_def mockEnv_def logAuditEvent_def)

subsection \<open>Revoking twice\<close>

lemma revoke_result:
  "fst (revoke env now rnd tokId why)
     = \<lparr>revoked_tokenId = tokId, revokedAt = now,
        revoked_reason = (case why of None \<Rightarrow> ''Manual revocation'' | Some r \<Rightarrow> r)\<rparr>"
  by (simp add: revoke_def Let_def)

lemma revoke_tokens:
  assumes "AUTH_DB env = Some db"
  shows "map_option tokens (AUTH_DB (snd (revoke env now rnd tokId why)))
       = Some (map (\<lambda>r. if row_id r = tokId then r\<lparr>revoked_at := Some now\<rparr> else r) (tokens db))"
  using assms
  by (simp add: revoke_def Let_def logAuditEvent_tokens split: option.splits)

text \<open>
  Claim C5, as the code has it. Two calls of \<open>revoke\<close> on one token id both return
  success, each with its own instant and its own reason. In the table \<open>tokens\<close> every
  call overwrites \<open>revoked_at\<close>: after the second call the rows with the id hold the
  instant of the second call, and the other rows hold what they held.
\<close>

theorem revoke_twice_keeps_the_later_instant:
  assumes "AUTH_DB env = Some db"
  shows "fst (revoke env t1 rnd1 tokId why1)
           = \<lparr>revoked_tokenId = tokId, revokedAt = t1,
              revoked_reason = (case why1 of None \<Rightarrow> ''Manual revocation'' | Some r \<Rightarrow> r)\<rparr>
       \<and> fst (revoke (snd (revoke env t1 rnd1 tokId why1)) t2 rnd2 tokId why2)
           = \<lparr>revoked_tokenId = tokId, revokedAt = t2,
              revoked_reason = (case why2 of None \<Rightarrow> ''Manual revocation'' | Some r \<Rightarrow> r)\<rparr>
       \<and> map_option (map revoked_at \<circ> tokens)
            (AUTH_DB (snd (revoke (snd (revoke env t1 rnd1 tokId why1)) t2 rnd2 tokId why2)))
           = Some (map (\<lambda>r. if row_id r = tokId then Some t2 else revoked_at r) (tokens db))"
proof -
  obtain db1 where db1: "AUTH_DB (snd (revoke env t1 rnd1 tokId why1)) = Some db1"
    and t1: "tokens db1
      = map (\<lambda>r. if row_id r = tokId then r\<lparr>revoked_at := Some t1\<rparr> else r) (tokens db)"
    using revoke_tokens [OF assms, of t1 rnd1 tokId why1] by auto
  have "map_option tokens
      (AUTH_DB (snd (revoke (snd (revoke env t1 rnd1 tokId why1)) t2 rnd2 tokId why2)))
      = Some (map (\<lambda>r. if row_id r = tokId then r\<lparr>revoked_at := Some t2\<rparr> else r) (tokens db1))"
    using db1 by (rule revoke_tokens)
  then have "map_option (map revoked_at \<circ> tokens)
      (AUTH_DB (snd (revoke (snd (revoke env t1 rnd1 tokId why1)) t2 rnd2 tokId why2)))
      = Some (map revoked_at
          (map (\<lambda>r. if row_id r = tokId then r\<lparr>revoked_at := Some t2\<rparr> else r) (tokens db1)))"
    by (auto simp: map_option_case split: option.splits)
  also have "map revoked_at
      (map (\<lambda>r. if row_id r = tokId then r\<lparr>revoked_at := Some t2\<rparr> else r) (tokens db1))
      = map (\<lambda>r. if row_id r = tokId then Some t2 else revoked_at r) (tokens db)"
    by (simp add: t1 comp_def if_distrib cong: if_cong)
  finally show ?thesis
    by (simp add: revoke_result)
qed

theorem revoke_twice_keeps_the_later_instant_witness:
  "AUTH_DB one_token = Some \<lparr>tokens = [stored], auth_events = []\<rparr>
   \<and> fst (revoke one_token 1000 zeros ''tok_1'' None)
       = \<lparr>revoked_tokenId = ''tok_1'', revokedAt = 1000, revoked_reason = ''Manual revocation''\<rparr>
   \<and> fst (revoke (snd (revoke one_token 1000 zeros ''tok_1'' None))
             2000 zeros ''tok_1'' (Some ''again''))
       = \<lparr>revoked_tokenId = ''tok_1'', revokedAt = 2000, revoked_reason = ''again''\<rparr>
   \<and> map_option (map revoked_at \<circ> tokens)
        (AUTH_DB (snd (revoke (snd (revoke one_token 1000 zeros ''tok_1'' None))
                         2000 zeros ''tok_1'' (Some ''again''))))
       = Some [Some 2000]"
proof -
  have h: "AUTH_DB one_token = Some \<lparr>tokens = [stored], auth_events = []\<rparr>"
    by (simp add: one_token_def)
  show ?thesis
    using revoke_twice_keeps_the_later_instant
            [OF h, of 1000 zeros "''tok_1''" None 2000 zeros "Some ''again''"] h
    by (simp add: stored_def)
qed

text \<open>
  The stored token is revoked at instant 1000 and again at instant 2000: the row holds
  2000, not 1000, and no reason at all.
\<close>

theorem second_revocation_overwrites_the_first:
  "revokedAt (fst (revoke one_token 1000 zeros ''tok_1'' (Some ''first''))) = 1000
   \<and> map_option (map revoked_at \<circ> tokens)
        (AUTH_DB (snd (revoke (snd (revoke one_token 1000 zeros ''tok_1'' (Some ''first'')))
                         2000 zeros ''tok_1'' (Some ''second''))))
     = Some [Some 2000]
   \<and> map_option (map revocation_reason \<circ> tokens)
        (AUTH_DB (snd (revoke (snd (revoke one_token 1000 zeros ''tok_1'' (Some ''first'')))
                         2000 zeros ''tok_1'' (Some ''second''))))
     = Some [None]"
  by (simp add: revoke_def Let_def one_token_def mockEnv_def stored_def logAuditEvent_def)

subsection \<open>The instant of expiry\<close>

lemmas validate_unfolded = validate_def falsy_def stripBearer_def has_bearer_def bearer_letters_def
  isValidTokenFormat_def validPrefixes_def startsWith_def hashToken_def isRevoked_def
  kv_get_def kv_put_def getTokenData_def fromRow_def updateTokenUsage_def checkRateLimit_def
  getRateLimit_def Let_def

text \<open>
  Claim C8 at the boundary. The stored token expires at instant 3600000. At that very
  instant \<open>validate\<close> accepts it, because the test is \<open>expiresAt < Date.now()\<close>, while
  \<open>getStats\<close> counts the same row as expired (\<open>expires_at <= ?\<close>) and not as active
  (\<open>expires_at > ?\<close>).
\<close>

theorem token_is_valid_at_its_expiry_instant:
  "fst (validate transparent one_token 3600000 zeros (Some ''ca_live_abc123''))
     = Inr (Valid \<lparr>valid_tokenId = ''tok_1'', valid_chittyId = ''subject-42'',
                   valid_scope = [''res:read''], valid_service = None,
                   valid_expiresAt = 3600000, rateLimitRemaining = 99\<rparr>)
   \<and> getStats one_token 3600000
     = Stats \<lparr>totalTokens = 1, activeTokens = 0, revokedTokens = 0, expiredTokens = 1,
              requestsToday = 0\<rparr>"
  by (simp add: validate_unfolded transparent_def one_token_def mockEnv_def stored_def getStats_def)

subsection \<open>Provision, then validate\<close>

text \<open>
  Claim C3 on the scenario of the specification, for every runtime, every instant and
  all random bytes; the token is validated a millisecond after it was provisioned. With
  every binding configured the validation returns what was provisioned. When the cache
  \<open>AUTH_TOKENS\<close> is not bound, or has lost its entries, the data come from the table
  \<open>tokens\<close>, whose \<open>service_name\<close> the \<open>INSERT\<close> never sets: the validation
  succeeds with no service. With \<open>ENVIRONMENT = development\<close> the token gets the prefix
  \<open>ca_development_\<close>, which \<open>isValidTokenFormat\<close> does not know: the validation
  fails.
\<close>

theorem round_trip_depends_on_the_cache_and_the_environment:
  "fst (validate C (snd (provision_subject_42 C mockEnv t rnd)) (t + 1) rnd'
         (Some (token (projr (fst (provision_subject_42 C mockEnv t rnd))))))
   = Inr (Valid \<lparr>valid_tokenId = generateTokenId rnd, valid_chittyId = ''subject-42'',
                 valid_scope = [''res:read''], valid_service = Some ''svc'',
                 valid_expiresAt = t + 3600000, rateLimitRemaining = 99\<rparr>)
  \<and> fst (validate C (snd (provision_subject_42 C (mockEnv\<lparr>AUTH_TOKENS := None\<rparr>) t rnd))
         (t + 1) rnd'
         (Some (token (projr (fst (provision_subject_42 C (mockEnv\<lparr>AUTH_TOKENS := None\<rparr>) t rnd))))))
   = Inr (Valid \<lparr>valid_tokenId = generateTokenId rnd, valid_chittyId = ''subject-42'',
                 valid_scope = [''res:read''], valid_service = None,
                 valid_expiresAt = t + 3600000, rateLimitRemaining = 99\<rparr>)
  \<and> fst (validate C
         ((snd (provision_subject_42 C mockEnv t rnd))\<lparr>AUTH_TOKENS := Some Map.empty\<rparr>)
         (t + 1) rnd'
         (Some (token (projr (fst (provision_subject_42 C mockEnv t rnd))))))
   = Inr (Valid \<lparr>valid_tokenId = generateTokenId rnd, valid_chittyId = ''subject-42'',
                 valid_scope = [''res:read''], valid_service = None,
                 valid_expiresAt = t + 3600000, rateLimitRemaining = 99\<rparr>)
  \<and> fst (validate C
         (snd (provision_subject_42 C (mockEnv\<lparr>ENVIRONMENT := Some ''development''\<rparr>) t rnd))
         (t + 1) rnd'
         (Some (token (projr (fst (provision_subject_42 C
                                     (mockEnv\<lparr>ENVIRONMENT := Some ''development''\<rparr>) t rnd))))))
   = Inr (Invalid ''Invalid token format'')"
  by (simp add: validate_unfolded provision_subject_42_def provision_def generateToken_def
      logAuditEvent_def mockEnv_def)

subsection \<open>The rate limit\<close>

lemma wellformed_not_falsy:
  assumes "isValidTokenFormat tok"
  shows "\<not> falsy (Some tok)"
  using assms by (auto simp: isValidTokenFormat_def validPrefixes_def startsWith_def falsy_def)

lemma updateTokenUsage_AUTH_RATE_LIMITS:
  "AUTH_RATE_LIMITS (snd (updateTokenUsage env now h td)) = AUTH_RATE_LIMITS env"
  by (simp add: updateTokenUsage_def Let_def split: option.splits)

lemma updateTokenUsage_keeps:
  "tokenId (fst (updateTokenUsage env now h td)) = tokenId td"
  "chittyId (fst (updateTokenUsage env now h td)) = chittyId td"
  "scope (fst (updateTokenUsage env now h td)) = scope td"
  "service (fst (updateTokenUsage env now h td)) = service td"
  "expiresAt (fst (updateTokenUsage env now h td)) = expiresAt td"
  by (simp_all add: updateTokenUsage_def Let_def split: option.splits)

lemma requests_positive: "0 < requests (getRateLimit sc)"
  by (simp add: getRateLimit_def)

text \<open>What a validation comes to once its four checks are passed.\<close>

lemma validate_live:
  assumes "isValidTokenFormat tok"
    and "\<not> isRevoked env now (hashToken C tok)"
    and "getTokenData env now (hashToken C tok) = Some td"
    and "\<not> expiresAt td < now"
  shows "fst (validate C env now rnd (Some tok))
       = (case fst (checkRateLimit (snd (updateTokenUsage env now (hashToken C tok) td)) now
                      (hashToken C tok) (fst (updateTokenUsage env now (hashToken C tok) td))) of
            Inl thrown \<Rightarrow> Inl thrown
          | Inr remaining \<Rightarrow>
              Inr (Valid \<lparr>valid_tokenId = tokenId td, valid_chittyId = chittyId td,
                          valid_scope = scope td, valid_service = service td,
                          valid_expiresAt = expiresAt td, rateLimitRemaining = remaining\<rparr>))"
  using assms wellformed_not_falsy [OF assms(1)]
  by (simp add: validate_def Let_def wellformed_has_no_bearer split_def updateTokenUsage_keeps
      split: sum.splits)

text \<open>
  A hundred validations of the cached token within second 10: the stores after each of
  them, by induction on their number.
\<close>

lemma key_of_second_10: "number_to_string (- 3590) = ''-3590''"
  by (simp add: number_to_string_def nat_to_string.simps)

lemma key_of_second_11: "number_to_string (- 3589) = ''-3589''"
  by (simp add: number_to_string_def nat_to_string.simps)

lemma randomString_zeros: "randomString zeros 20 = ''AAAAAAAAAAAAAAAAAAAA''"
proof -
  have "replicate 20 CHR ''A'' = ''AAAAAAAAAAAAAAAAAAAA''"
    by (simp add: eval_nat_numeral)
  then show ?thesis
    by (simp add: randomString_def zeros_def chars_def map_replicate_const)
qed

lemma first_validation:
  "snd (validate transparent cached 10000 zeros (Some ''ca_live_abc123'')) = stores_after 1"
  by (simp add: validate_unfolded transparent_def cached_def one_token_def mockEnv_def stored_def
      stores_after_def logAuditEvent_def key_of_second_10 randomString_zeros or_null_def)

lemma next_validation:
  assumes "k < 100"
  shows "snd (validate transparent (stores_after k) 10000 zeros (Some ''ca_live_abc123''))
       = stores_after (Suc k)"
proof -
  have s: "int (Suc k) = int k + 1"
    by simp
  show ?thesis
    using assms
    by (simp add: validate_unfolded transparent_def mockEnv_def stored_def stores_after_def
        logAuditEvent_def key_of_second_10 randomString_zeros or_null_def
        replicate_append_same s del: of_nat_Suc)
qed

lemma validations_stores_after:
  "0 < k \<Longrightarrow> k \<le> 100 \<Longrightarrow>
   validations transparent cached 10000 zeros (Some ''ca_live_abc123'') k = stores_after k"
proof (induction k)
  case 0
  then show ?case by simp
next
  case (Suc k)
  show ?case
  proof (cases "k = 0")
    case True
    then show ?thesis by (simp add: first_validation)
  next
    case False
    with Suc show ?thesis by (simp add: next_validation)
  qed
qed

lemma hundred:
  "validations transparent cached 10000 zeros (Some ''ca_live_abc123'') 100 = stores_after 100"
  by (rule validations_stores_after) simp_all

lemma ninety_nine:
  "validations transparent cached 10000 zeros (Some ''ca_live_abc123'') 99 = stores_after 99"
  by (rule validations_stores_after) simp_all

lemma hundredth_is_valid:
  "fst (validate transparent
          (validations transparent cached 10000 zeros (Some ''ca_live_abc123'') 99)
          10000 zeros (Some ''ca_live_abc123''))
     = Inr (Valid \<lparr>valid_tokenId = ''tok_1'', valid_chittyId = ''subject-42'',
                   valid_scope = [''res:read''], valid_service = None,
                   valid_expiresAt = 3600000, rateLimitRemaining = 0\<rparr>)"
  unfolding ninety_nine
  by (simp add: validate_unfolded transparent_def mockEnv_def stored_def stores_after_def key_of_second_10)

lemma hundred_and_first_is_thrown:
  "fst (validate transparent
          (validations transparent cached 10000 zeros (Some ''ca_live_abc123'') 100)
          10000 zeros (Some ''ca_live_abc123''))
     = Inl ''Rate limit exceeded''"
  unfolding hundred
  by (simp add: validate_unfolded transparent_def mockEnv_def stored_def stores_after_def key_of_second_10)

text \<open>
  Claim C2 against the code. The counter that \<open>checkRateLimit\<close> reads has the key of
  the current second (minus 3600), not of the current hour. So whenever a token passes the
  four checks of \<open>validate\<close> and the store holds no live counter for this very
  second, the validation succeeds with the whole quota but one left, whatever the counters
  of the other seconds of the hour have reached.
\<close>

theorem rate_limit_counter_is_keyed_by_the_second:
  assumes "isValidTokenFormat tok"
    and "\<not> isRevoked env now (hashToken C tok)"
    and "getTokenData env now (hashToken C tok) = Some td"
    and "\<not> expiresAt td < now"
    and "AUTH_RATE_LIMITS env = Some rl"
    and "kv_get rl now
           (''ratelimit:'' @ hashToken C tok @ '':'' @ number_to_string (now div 1000 - 3600))
         = None"
  shows "fst (validate C env now rnd (Some tok))
       = Inr (Valid \<lparr>valid_tokenId = tokenId td, valid_chittyId = chittyId td,
                     valid_scope = scope td, valid_service = service td,
                     valid_expiresAt = expiresAt td,
                     rateLimitRemaining = requests (getRateLimit (scope td)) - 1\<rparr>)"
  using assms(5,6) requests_positive [of "scope td"]
  by (simp add: validate_live [OF assms(1-4)] checkRateLimit_def Let_def
      updateTokenUsage_AUTH_RATE_LIMITS updateTokenUsage_keeps)

text \<open>
  The token has the lowest tier, 100 requests. A hundred validations in second 10 bring
  the counter of that second to 100, the hundredth leaving 0. The next validation, one
  second later in the same hour, is the 101st of the hour: it succeeds, with 99 left.
\<close>

theorem rate_limit_counter_is_keyed_by_the_second_witness:
  "AUTH_RATE_LIMITS (validations transparent cached 10000 zeros (Some ''ca_live_abc123'') 100)
     = Some [''ratelimit:ca_live_abc123:-3590'' \<mapsto> (100, 3610000)]
   \<and> fst (validate transparent
            (validations transparent cached 10000 zeros (Some ''ca_live_abc123'') 99)
            10000 zeros (Some ''ca_live_abc123''))
     = Inr (Valid \<lparr>valid_tokenId = ''tok_1'', valid_chittyId = ''subject-42'',
                   valid_scope = [''res:read''], valid_service = None,
                   valid_expiresAt = 3600000, rateLimitRemaining = 0\<rparr>)
   \<and> fst (validate transparent
            (validations transparent cached 10000 zeros (Some ''ca_live_abc123'') 100)
            11000 zeros (Some ''ca_live_abc123''))
     = Inr (Valid \<lparr>valid_tokenId = ''tok_1'', valid_chittyId = ''subject-42'',
                   valid_scope = [''res:read''], valid_service = None,
                   valid_expiresAt = 3600000, rateLimitRemaining = 99\<rparr>)"
proof -
  let ?env = "validations transparent cached 10000 zeros (Some ''ca_live_abc123'') 100"
  let ?td = "(fromRow stored)\<lparr>lastUsedAt := Some 10000, requestCount := 100\<rparr>"
  let ?rl = "[''ratelimit:ca_live_abc123:-3590'' \<mapsto> (100 :: int, 3610000 :: instant)]"
  have h1: "isValidTokenFormat ''ca_live_abc123''"
    by (simp add: isValidTokenFormat_def validPrefixes_def startsWith_def)
  have h2: "\<not> isRevoked ?env 11000 (hashToken transparent ''ca_live_abc123'')"
    unfolding hundred by (simp add: isRevoked_def stores_after_def mockEnv_def kv_get_def)
  have h3: "getTokenData ?env 11000 (hashToken transparent ''ca_live_abc123'') = Some ?td"
    unfolding hundred
    by (simp add: getTokenData_def stores_after_def kv_get_def hashToken_def transparent_def)
  have h4: "\<not> expiresAt ?td < 11000"
    by (simp add: fromRow_def stored_def)
  have h5: "AUTH_RATE_LIMITS ?env = Some ?rl"
    unfolding hundred by (simp add: stores_after_def)
  have h6: "kv_get ?rl 11000
      (''ratelimit:'' @ hashToken transparent ''ca_live_abc123'' @ '':'' @
       number_to_string (11000 div 1000 - 3600)) = None"
    by (simp add: kv_get_def hashToken_def transparent_def key_of_second_11)
  show ?thesis
    using rate_limit_counter_is_keyed_by_the_second [OF h1 h2 h3 h4 h5 h6, of zeros] h5
      hundredth_is_valid
    by (simp add: fromRow_def stored_def getRateLimit_def)
qed

text \<open>
  Claim C4 against the code. When a token passes the four checks and the counter of the
  current second has reached the limit of its tier, \<open>validate\<close> does not return: the
  \<open>Error\<close> that \<open>checkRateLimit\<close> throws, \<open>Rate limit exceeded\<close>, leaves it.
\<close>

theorem exhausted_rate_limit_is_thrown:
  assumes "isValidTokenFormat tok"
    and "\<not> isRevoked env now (hashToken C tok)"
    and "getTokenData env now (hashToken C tok) = Some td"
    and "\<not> expiresAt td < now"
    and "AUTH_RATE_LIMITS env = Some rl"
    and "kv_get rl now
           (''ratelimit:'' @ hashToken C tok @ '':'' @ number_to_string (now div 1000 - 3600))
         = Some n"
    and "requests (getRateLimit (scope td)) \<le> n"
  shows "fst (validate C env now rnd (Some tok)) = Inl ''Rate limit exceeded''"
  using assms(5-7)
  by (simp add: validate_live [OF assms(1-4)] checkRateLimit_def Let_def
      updateTokenUsage_AUTH_RATE_LIMITS updateTokenUsage_keeps)

text \<open>The 101st validation within second 10.\<close>

theorem exhausted_rate_limit_is_thrown_witness:
  "AUTH_RATE_LIMITS (validations transparent cached 10000 zeros (Some ''ca_live_abc123'') 100)
     = Some [''ratelimit:ca_live_abc123:-3590'' \<mapsto> (100, 3610000)]
   \<and> fst (validate transparent
            (validations transparent cached 10000 zeros (Some ''ca_live_abc123'') 100)
            10000 zeros (Some ''ca_live_abc123''))
     = Inl ''Rate limit exceeded''"
proof -
  let ?env = "validations transparent cached 10000 zeros (Some ''ca_live_abc123'') 100"
  let ?td = "(fromRow stored)\<lparr>lastUsedAt := Some 10000, requestCount := 100\<rparr>"
  let ?rl = "[''ratelimit:ca_live_abc123:-3590'' \<mapsto> (100 :: int, 3610000 :: instant)]"
  have h1: "isValidTokenFormat ''ca_live_abc123''"
    by (simp add: isValidTokenFormat_def validPrefixes_def startsWith_def)
  have h2: "\<not> isRevoked ?env 10000 (hashToken transparent ''ca_live_abc123'')"
    unfolding hundred by (simp add: isRevoked_def stores_after_def mockEnv_def kv_get_def)
  have h3: "getTokenData ?env 10000 (hashToken transparent ''ca_live_abc123'') = Some ?td"
    unfolding hundred
    by (simp add: getTokenData_def stores_after_def kv_get_def hashToken_def transparent_def)
  have h4: "\<not> expiresAt ?td < 10000"
    by (simp add: fromRow_def stored_def)
  have h5: "AUTH_RATE_LIMITS ?env = Some ?rl"
    unfolding hundred by (simp add: stores_after_def)
  have h6: "kv_get ?rl 10000
      (''ratelimit:'' @ hashToken transparent ''ca_live_abc123'' @ '':'' @
       number_to_string (10000 div 1000 - 3600)) = Some 100"
    by (simp add: kv_get_def hashToken_def transparent_def key_of_second_10)
  have h7: "requests (getRateLimit (scope ?td)) \<le> 100"
    by (simp add: fromRow_def stored_def getRateLimit_def)
  show ?thesis
    using exhausted_rate_limit_is_thrown [OF h1 h2 h3 h4 h5 h6 h7, of zeros] h5
    by simp
qed

subsection \<open>Branches that write no audit event\<close>

lemma updateTokenUsage_audit:
  "map_option auth_events (AUTH_DB (snd (updateTokenUsage env now h td)))
     = map_option auth_events (AUTH_DB env)"
  "AUTH_AUDIT (snd (updateTokenUsage env now h td)) = AUTH_AUDIT env"
  by (simp_all add: updateTokenUsage_def Let_def split: option.splits)

lemma checkRateLimit_audit:
  "AUTH_DB (snd (checkRateLimit env now h td)) = AUTH_DB env"
  "AUTH_AUDIT (snd (checkRateLimit env now h td)) = AUTH_AUDIT env"
  by (simp_all add: checkRateLimit_def Let_def split: option.splits)

text \<open>
  Claim C6 against the code. Two terminal branches of \<open>validate\<close> write no audit event.
  A missing or ill-formed token is answered with \<open>Invalid token format\<close> and every
  store, the audit log included, is what it was. And whenever \<open>validate\<close> ends by the
  thrown rate-limit error, the table \<open>auth_events\<close> and the namespace \<open>AUTH_AUDIT\<close>
  are what they were.
\<close>

theorem branches_without_audit_event:
  "(falsy t \<or> \<not> isValidTokenFormat (stripBearer (the t)) \<longrightarrow>
      validate C env now rnd t = (Inr (Invalid ''Invalid token format''), env))
   \<and> (fst (validate C env now rnd t) = Inl thrown \<longrightarrow>
      map_option auth_events (AUTH_DB (snd (validate C env now rnd t)))
        = map_option auth_events (AUTH_DB env)
      \<and> AUTH_AUDIT (snd (validate C env now rnd t)) = AUTH_AUDIT env)"
  by (simp add: validate_def Let_def split_def updateTokenUsage_audit checkRateLimit_audit
      split: option.splits sum.splits)

text \<open>
  The token of the unit test \<open>should reject invalid token format\<close> leaves the empty
  stores empty; the 101st validation within second 10 is thrown and leaves the hundred
  events of the hundred validations before it.
\<close>

theorem branches_without_audit_event_witness:
  "validate transparent mockEnv 10000 zeros (Some ''invalid-token-format'')
     = (Inr (Invalid ''Invalid token format''), mockEnv)
   \<and> fst (validate transparent
            (validations transparent cached 10000 zeros (Some ''ca_live_abc123'') 100)
            10000 zeros (Some ''ca_live_abc123''))
     = Inl ''Rate limit exceeded''
   \<and> map_option (length \<circ> auth_events)
        (AUTH_DB (snd (validate transparent
            (validations transparent cached 10000 zeros (Some ''ca_live_abc123'') 100)
            10000 zeros (Some ''ca_live_abc123''))))
     = Some 100"
proof -
  have f: "\<not> isValidTokenFormat (stripBearer (the (Some ''invalid-token-format'')))"
    by (simp add: stripBearer_def has_bearer_def bearer_letters_def
        isValidTokenFormat_def validPrefixes_def startsWith_def)
  have a: "map_option (length \<circ> auth_events)
      (AUTH_DB (validations transparent cached 10000 zeros (Some ''ca_live_abc123'') 100))
      = Some 100"
    unfolding hundred by (simp add: stores_after_def)
  show ?thesis
    using branches_without_audit_event
            [of "Some ''invalid-token-format''" transparent mockEnv 10000 zeros]
      branches_without_audit_event
            [of "Some ''ca_live_abc123''" transparent
                "validations transparent cached 10000 zeros (Some ''ca_live_abc123'') 100"
                10000 zeros "''Rate limit exceeded''"]
      f hundred_and_first_is_thrown a
    by (auto simp: map_option_case split: option.splits)
qed

end
